theory Spec2Isabelle
  imports Main "HOL-Library.Sublist"
begin

section \<open>Syntax trees of the external parser\<close>

text \<open>
  Modelled from the spec: the generated parser classes (\<open>EsqlBaseParser\<close>) and the tree
  runtime are not part of the source file. A syntax node is tagged by a kind drawn from a
  closed enumeration; the kinds below are exactly the context classes that
  \<open>esql_listener.py\<close> names, plus \<open>OtherRule\<close> for every other clause or expression.
\<close>

datatype kind =
    QualifiedName
  | SourceIdentifier
  | EvalCommand
  | FromCommand
  | WhereCommand
  | Comparison
  | LogicalIn
  | OperatorExpression
  | ValueExpression
  | NullLiteral
  | QualifiedIntegerLiteral
  | DecimalLiteral
  | IntegerLiteral
  | BooleanLiteral
  | StringLiteral
  | NumericArrayLiteral
  | BooleanArrayLiteral
  | StringArrayLiteral
  | OtherRule

text \<open>
  Modelled from the spec: a tree is either a token carrying its source text or a rule node
  with a kind and its children in source order.
\<close>

datatype node = Terminal string | Rule kind "node list"

text \<open>
  Modelled from the spec: a context is a node together with its chain of ancestors, the
  nearest first; this is what following \<open>parentCtx\<close> repeatedly visits. The root has the
  empty chain (its \<open>parentCtx\<close> is \<open>None\<close>).
\<close>

type_synonym ctx = "node \<times> node list"

text \<open>Modelled from the spec: the text of a node is the text of its tokens, in order.\<close>

fun getText :: "node \<Rightarrow> string" where
  "getText (Terminal t) = t"
| "getText (Rule k cs) = concat (map getText cs)"

text \<open>Modelled from the spec: \<open>isinstance(n, <kind>Context)\<close>.\<close>

fun isinstance :: "node \<Rightarrow> kind \<Rightarrow> bool" where
  "isinstance (Terminal t) k = False"
| "isinstance (Rule k' cs) k = (k' = k)"

text \<open>Modelled from the spec: \<open>isinstance(ctx.parentCtx, <kind>Context)\<close>; false at the root.\<close>

fun parent_isinstance :: "ctx \<Rightarrow> kind \<Rightarrow> bool" where
  "parent_isinstance (n, []) k = False"
| "parent_isinstance (n, p # rest) k = isinstance p k"

text \<open>Modelled from the spec: the children of a node; a token has none.\<close>

fun children :: "node \<Rightarrow> node list" where
  "children (Terminal t) = []"
| "children (Rule k cs) = cs"

text \<open>Modelled from the spec: \<open>getChild(i)\<close>, which is \<open>None\<close> when there is no such child.\<close>

definition getChild :: "node \<Rightarrow> nat \<Rightarrow> node option" where
  "getChild n i = (if i < length (children n) then Some (children n ! i) else None)"

text \<open>
  Modelled from the spec: the typed accessors \<open>operatorExpression(i)\<close> and
  \<open>valueExpression(i)\<close> of the generated parser return the \<open>i\<close>-th child of the given kind,
  or \<open>None\<close> when there is none.
\<close>

definition getTypedRuleContext :: "node \<Rightarrow> kind \<Rightarrow> nat \<Rightarrow> node option" where
  "getTypedRuleContext n k i =
     (let cs = filter (\<lambda>c. isinstance c k) (children n)
      in if i < length cs then Some (cs ! i) else None)"

definition operatorExpression :: "node \<Rightarrow> nat \<Rightarrow> node option" where
  "operatorExpression n i = getTypedRuleContext n OperatorExpression i"

definition valueExpression :: "node \<Rightarrow> nat \<Rightarrow> node option" where
  "valueExpression n i = getTypedRuleContext n ValueExpression i"

section \<open>The listener\<close>

text \<open>The schema is a dictionary from field names to declared types.\<close>

type_synonym schema = "string \<rightharpoonup> string"

text \<open>The mutable attributes of \<open>ESQLValidatorListener\<close> that its handlers update.\<close>

record session =
  field_list :: "string list"
  indices :: "string list"
  get_event_datasets :: "string list"

text \<open>
  The exceptions the handlers can raise. \<open>AttributeError\<close> is what Python raises when a
  method is called on \<open>None\<close>.
\<close>

datatype error = ESQLSyntaxError string | ValueError string | AttributeError

text \<open>
  A handler returns the exception it raised, if any, together with the listener's
  attributes as they are at that moment: an append made before a \<open>raise\<close> stays.
\<close>

type_synonym outcome = "error option \<times> session"

text \<open>The attributes right after \<open>__init__\<close>.\<close>

definition init :: session where
  "init = \<lparr>field_list = [], indices = [], get_event_datasets = []\<rparr>"

text \<open>
  \<open>enterQualifiedName\<close>: unless the immediate parent is an eval command, the text is
  appended to \<open>field_list\<close>, then looked up in the schema, then, when it is
  \<open>event.dataset\<close>, the text of the parent is appended to \<open>get_event_datasets\<close>.
\<close>

definition enterQualifiedName :: "schema \<Rightarrow> ctx \<Rightarrow> session \<Rightarrow> outcome" where
  "enterQualifiedName sch ctx s =
     (if \<not> parent_isinstance ctx EvalCommand then
        (let field = getText (fst ctx);
             s1 = s\<lparr>field_list := field_list s @ [field]\<rparr>
         in if sch field = None then
              (Some (ESQLSyntaxError (''Invalid field: '' @ field)), s1)
            else if field = ''event.dataset'' then
              (case snd ctx of
                 [] \<Rightarrow> (Some AttributeError, s1)
               | p # rest \<Rightarrow>
                   (None, s1\<lparr>get_event_datasets := get_event_datasets s1 @ [getText p]\<rparr>))
            else (None, s1))
      else (None, s))"

text \<open>
  \<open>enterSourceIdentifier\<close>: outside a from command the text is appended to
  \<open>field_list\<close> and looked up in the schema; under a from command it is appended to
  \<open>indices\<close>.
\<close>

definition enterSourceIdentifier :: "schema \<Rightarrow> ctx \<Rightarrow> session \<Rightarrow> outcome" where
  "enterSourceIdentifier sch ctx s =
     (if \<not> parent_isinstance ctx FromCommand then
        (let field = getText (fst ctx);
             s1 = s\<lparr>field_list := field_list s @ [field]\<rparr>
         in if sch field = None then
              (Some (ValueError (''Invalid field: '' @ field)), s1)
            else (None, s1))
      else (None, s\<lparr>indices := indices s @ [getText (fst ctx)]\<rparr>))"

text \<open>
  The \<open>while parent_ctx:\<close> loop of \<open>find_associated_field_and_context\<close>, over the
  chain of ancestors. Calling \<open>getChild\<close> on a missing operand raises; a missing first
  child gives the field \<open>None\<close>.
\<close>

fun find_loop :: "node list \<Rightarrow> error + (string option \<times> string option)" where
  "find_loop [] = Inr (None, None)"
| "find_loop (parent_ctx # rest) =
     (if isinstance parent_ctx Comparison then
        (case operatorExpression parent_ctx 0 of
           None \<Rightarrow> Inl AttributeError
         | Some oe \<Rightarrow>
             (case getChild oe 0 of
                None \<Rightarrow> Inr (None, Some ''Comparison'')
              | Some field_ctx \<Rightarrow> Inr (Some (getText field_ctx), Some ''Comparison'')))
      else if isinstance parent_ctx LogicalIn then
        (case valueExpression parent_ctx 0 of
           None \<Rightarrow> Inl AttributeError
         | Some ve \<Rightarrow>
             (case getChild ve 0 of
                None \<Rightarrow> Inr (None, Some ''LogicalIn'')
              | Some field_ctx \<Rightarrow> Inr (Some (getText field_ctx), Some ''LogicalIn'')))
      else find_loop rest)"

definition find_associated_field_and_context ::
    "ctx \<Rightarrow> error + (string option \<times> string option)" where
  "find_associated_field_and_context ctx = find_loop (snd ctx)"

text \<open>
  \<open>get_literal_type\<close>: the result is a Python string, or \<open>None\<close> when the chain of
  \<open>isinstance\<close> tests ends without a \<open>return\<close>.
\<close>

definition get_literal_type :: "node \<Rightarrow> string option \<Rightarrow> string option" where
  "get_literal_type n context_type =
     (if context_type = Some ''Comparison'' \<or> context_type = Some ''LogicalIn'' then
        (if isinstance n StringLiteral then Some ''keyword''
         else if isinstance n IntegerLiteral \<or> isinstance n QualifiedIntegerLiteral
           then Some ''integer''
         else if isinstance n DecimalLiteral then Some ''decimal''
         else if isinstance n BooleanLiteral then Some ''boolean''
         else None)
      else Some ''unknown'')"

text \<open>How an f-string prints a value that is a string or \<open>None\<close>.\<close>

fun format :: "string option \<Rightarrow> string" where
  "format None = ''None''"
| "format (Some x) = x"

text \<open>A value between single quotes, as the message writes it.\<close>

definition quoted :: "string \<Rightarrow> string" where
  "quoted x = [CHR 0x27] @ x @ [CHR 0x27]"

text \<open>The message of the \<open>ValueError\<close> of \<open>check_literal_type\<close>.\<close>

definition mismatch_message ::
    "string \<Rightarrow> string option \<Rightarrow> string \<Rightarrow> string option \<Rightarrow> string" where
  "mismatch_message field context_type expected_type actual_type =
     ''Field '' @ quoted field @ '' in context '' @ quoted (format context_type)
       @ ''expects type '' @ quoted expected_type
       @ '', but got '' @ quoted (format actual_type)"

text \<open>
  \<open>check_literal_type\<close>. In \<open>if field and field in self.schema\<close> the first test is
  false for \<open>None\<close> and for the empty string, the second when the schema has no such key.
  The listener's attributes are not touched.
\<close>

definition check_literal_type :: "schema \<Rightarrow> ctx \<Rightarrow> error option" where
  "check_literal_type sch ctx =
     (case find_associated_field_and_context ctx of
        Inl e \<Rightarrow> Some e
      | Inr (field, context_type) \<Rightarrow>
          (case field of
             None \<Rightarrow> None
           | Some f \<Rightarrow>
               (if f \<noteq> [] then
                  (case sch f of
                     None \<Rightarrow> None
                   | Some expected_type \<Rightarrow>
                       (let actual_type = get_literal_type (fst ctx) context_type
                        in if Some expected_type \<noteq> actual_type then
                             Some (ValueError
                               (mismatch_message f context_type expected_type actual_type))
                           else None))
                else None)))"

text \<open>The nine literal kinds whose enter-handler calls \<open>check_literal_type\<close>.\<close>

definition literal_kinds :: "kind list" where
  "literal_kinds =
     [NullLiteral, QualifiedIntegerLiteral, DecimalLiteral, IntegerLiteral, BooleanLiteral,
      StringLiteral, NumericArrayLiteral, BooleanArrayLiteral, StringArrayLiteral]"

text \<open>
  Modelled from the spec: the external walker calls, for a rule node, the enter-handler
  registered for its kind; kinds without a handler do nothing.
\<close>

fun enterRule :: "schema \<Rightarrow> ctx \<Rightarrow> session \<Rightarrow> outcome" where
  "enterRule sch (Terminal t, anc) s = (None, s)"
| "enterRule sch (Rule k cs, anc) s =
     (if k = QualifiedName then enterQualifiedName sch (Rule k cs, anc) s
      else if k = SourceIdentifier then enterSourceIdentifier sch (Rule k cs, anc) s
      else if k \<in> set literal_kinds then (check_literal_type sch (Rule k cs, anc), s)
      else (None, s))"

text \<open>
  Modelled from the spec: the external walker visits the tree depth first, a parent before
  its children and the children in source order, and an exception ends the pass.
\<close>

fun walk :: "schema \<Rightarrow> node list \<Rightarrow> node \<Rightarrow> session \<Rightarrow> outcome"
  and walk_children :: "schema \<Rightarrow> node list \<Rightarrow> node list \<Rightarrow> session \<Rightarrow> outcome" where
  "walk sch anc (Terminal t) s = (None, s)"
| "walk sch anc (Rule k cs) s =
     (case enterRule sch (Rule k cs, anc) s of
        (Some e, s') \<Rightarrow> (Some e, s')
      | (None, s') \<Rightarrow> walk_children sch (Rule k cs # anc) cs s')"
| "walk_children sch anc [] s = (None, s)"
| "walk_children sch anc (c # cs) s =
     (case walk sch anc c s of
        (Some e, s') \<Rightarrow> (Some e, s')
      | (None, s') \<Rightarrow> walk_children sch anc cs s')"

text \<open>A whole validation pass over a tree, from fresh attributes.\<close>

definition validate :: "schema \<Rightarrow> node \<Rightarrow> outcome" where
  "validate sch t = walk sch [] t init"

section \<open>Notions used to state the properties\<close>

text \<open>
  The second attributes extend the first: each of the three lists has the earlier list as
  a prefix, so an entry, once inserted, is neither removed, changed nor moved.
\<close>

definition extends :: "session \<Rightarrow> session \<Rightarrow> bool" where
  "extends s s' =
     (prefix (field_list s) (field_list s') \<and> prefix (indices s) (indices s')
      \<and> prefix (get_event_datasets s) (get_event_datasets s'))"

text \<open>
  The specification's reading of the field operand, kept apart from the code: the text of
  the leftmost token below a node.
\<close>

fun spec_leftmost_leaf_text :: "node \<Rightarrow> string option" where
  "spec_leftmost_leaf_text (Terminal t) = Some t"
| "spec_leftmost_leaf_text (Rule k []) = None"
| "spec_leftmost_leaf_text (Rule k (c # cs)) = spec_leftmost_leaf_text c"


section \<open>Example trees\<close>

text \<open>
  Trees for queries of the form \<open>FROM index | WHERE field op literal\<close> and \<open>field IN (items)\<close>, in the shape that
  \<open>find_associated_field_and_context\<close> relies on: a comparison has operator expressions
  as operands, an in-list has value expressions, and the field is the first child of the
  first of them.
\<close>

definition string_token :: "string \<Rightarrow> node" where
  "string_token x = Terminal ([CHR 0x22] @ x @ [CHR 0x22])"

definition qualified_name :: "string list \<Rightarrow> node" where
  "qualified_name toks = Rule QualifiedName (map Terminal toks)"

definition field_operand :: "string list \<Rightarrow> node" where
  "field_operand toks = Rule OperatorExpression [Rule OtherRule [qualified_name toks]]"

definition literal_operand :: "node \<Rightarrow> node" where
  "literal_operand lit = Rule OperatorExpression [Rule OtherRule [lit]]"

definition comparison :: "node \<Rightarrow> string \<Rightarrow> node \<Rightarrow> node" where
  "comparison l op r = Rule Comparison [l, Rule OtherRule [Terminal op], r]"

definition where_query :: "string \<Rightarrow> node \<Rightarrow> node" where
  "where_query index cond =
     Rule OtherRule
       [Rule FromCommand [Terminal ''FROM'', Rule SourceIdentifier [Terminal index]],
        Terminal ''|'',
        Rule WhereCommand [Terminal ''WHERE'', Rule OtherRule [cond]]]"

definition in_list :: "node \<Rightarrow> node list \<Rightarrow> node" where
  "in_list v items =
     Rule LogicalIn
       ([Rule ValueExpression [v], Terminal ''IN'', Terminal ''('']
        @ map (\<lambda>i. Rule ValueExpression [i]) items @ [Terminal '')''])"

text \<open>The context of a literal that is the right operand of a comparison with the given left operand.\<close>

definition right_literal_ctx :: "node \<Rightarrow> string \<Rightarrow> node \<Rightarrow> ctx" where
  "right_literal_ctx l op lit =
     (lit, [Rule OtherRule [lit], literal_operand lit, comparison l op (literal_operand lit)])"

text \<open>
  The context of the name \<open>b\<close> in \<open>EVAL b = a + 1\<close>: the eval command is its
  great-grandparent.
\<close>

definition eval_field :: node where
  "eval_field =
     Rule OtherRule
       [qualified_name [''b''], Terminal ''='',
        Rule OperatorExpression
          [field_operand [''a''], Terminal ''+'',
           literal_operand (Rule IntegerLiteral [Terminal ''1''])]]"

text \<open>The tree of \<open>FROM idx | EVAL b = a + 1\<close>.\<close>

definition eval_query :: node where
  "eval_query =
     Rule OtherRule
       [Rule FromCommand [Terminal ''FROM'', Rule SourceIdentifier [Terminal ''idx'']],
        Terminal ''|'',
        Rule EvalCommand [Terminal ''EVAL'', Rule OtherRule [eval_field]]]"

definition nested_eval_ctx :: ctx where
  "nested_eval_ctx =
     (qualified_name [''b''],
      [eval_field, Rule OtherRule [eval_field],
       Rule EvalCommand [Terminal ''EVAL'', Rule OtherRule [eval_field]]])"

section \<open>Auxiliary facts\<close>

lemmas tree_defs = string_token_def qualified_name_def field_operand_def literal_operand_def
  comparison_def in_list_def where_query_def right_literal_ctx_def eval_field_def eval_query_def
  nested_eval_ctx_def

lemmas accessor_defs = find_associated_field_and_context_def operatorExpression_def
  valueExpression_def getTypedRuleContext_def getChild_def

lemma isinstance_unique: "isinstance n k \<Longrightarrow> isinstance n k' \<Longrightarrow> k = k'"
  by (cases n) auto

lemma find_loop_context:
  "find_loop anc = Inr (Some f, context_type) \<Longrightarrow>
     context_type = Some ''Comparison'' \<or> context_type = Some ''LogicalIn''"
  by (induction anc) (auto split: if_splits option.splits)

lemma find_loop_skip:
  "\<forall>a \<in> set pre. \<not> isinstance a Comparison \<and> \<not> isinstance a LogicalIn \<Longrightarrow>
     find_loop (pre @ rest) = find_loop rest"
  by (induction pre) auto








lemma extends_refl: "extends s s"
  by (simp add: extends_def)

lemma extends_trans: "extends s s' \<Longrightarrow> extends s' s'' \<Longrightarrow> extends s s''"
  unfolding extends_def by (meson prefix_order.trans)

lemma enterQualifiedName_extends: "extends s (snd (enterQualifiedName sch ctx s))"
  by (auto simp: enterQualifiedName_def extends_def Let_def split: list.splits)

lemma enterSourceIdentifier_extends: "extends s (snd (enterSourceIdentifier sch ctx s))"
  by (auto simp: enterSourceIdentifier_def extends_def Let_def)

lemma enterRule_extends: "extends s (snd (enterRule sch ctx s))"
proof (cases ctx)
  case (Pair n anc)
  then show ?thesis
    by (cases n)
       (simp_all add: extends_refl enterQualifiedName_extends enterSourceIdentifier_extends)
qed

lemma walk_extends:
  "extends s (snd (walk sch anc t s))"
  "extends s (snd (walk_children sch anc ts s))"
proof (induction sch anc t s and sch anc ts s rule: walk_walk_children.induct)
  case (1 sch anc t s)
  show ?case by (simp add: extends_refl)
next
  case (2 sch anc k cs s)
  obtain r s' where e: "enterRule sch (Rule k cs, anc) s = (r, s')"
    by (cases "enterRule sch (Rule k cs, anc) s")
  have a: "extends s s'"
    using enterRule_extends [of s sch "(Rule k cs, anc)"] e by simp
  show ?case
  proof (cases r)
    case None
    with e have "extends s' (snd (walk_children sch (Rule k cs # anc) cs s'))"
      using "2.IH" by simp
    with a None e show ?thesis
      by (auto intro: extends_trans)
  next
    case (Some err)
    with a e show ?thesis by simp
  qed
next
  case (3 sch anc s)
  show ?case by (simp add: extends_refl)
next
  case (4 sch anc c cs s)
  obtain r s' where w: "walk sch anc c s = (r, s')"
    by (cases "walk sch anc c s")
  have a: "extends s s'"
    using "4.IH"(1) w by simp
  show ?case
  proof (cases r)
    case None
    with w have "extends s' (snd (walk_children sch anc cs s'))"
      using "4.IH"(2) by simp
    with a None w show ?thesis
      by (auto intro: extends_trans)
  next
    case (Some err)
    with a w show ?thesis by simp
  qed
qed

text \<open>
  What the check does for a literal kind that \<open>get_literal_type\<close> has no case for, under a
  recognised context whose field is a non-empty schema key: the inferred type is \<open>None\<close>,
  which differs from every declared type, so the check raises.
\<close>

lemma check_literal_type_unmapped:
  assumes "find_associated_field_and_context ctx = Inr (Some f, context_type)"
    and "f \<noteq> []" and "sch f = Some T"
    and "fst ctx = Rule k cs"
    and "k \<in> {NullLiteral, NumericArrayLiteral, BooleanArrayLiteral, StringArrayLiteral}"
  shows "check_literal_type sch ctx
           = Some (ValueError (mismatch_message f context_type T None))"
proof -
  have c: "context_type = Some ''Comparison'' \<or> context_type = Some ''LogicalIn''"
    using assms(1) find_loop_context
    by (simp add: find_associated_field_and_context_def)
  have g: "get_literal_type (fst ctx) context_type = None"
    using c assms(4,5) by (auto simp: get_literal_type_def)
  show ?thesis
    using assms(1,2,3) g by (simp add: check_literal_type_def)
qed

text \<open>
  What \<open>enterQualifiedName\<close> records for \<open>event.dataset\<close>: the text of the immediate parent
  of the name.
\<close>

lemma enterQualifiedName_event_dataset:
  assumes "\<not> isinstance p EvalCommand" and "getText n = ''event.dataset''"
    and "sch ''event.dataset'' = Some T"
  shows "enterQualifiedName sch (n, p # rest) s
           = (None, s\<lparr>field_list := field_list s @ [''event.dataset''],
                       get_event_datasets := get_event_datasets s @ [getText p]\<rparr>)"
  using assms by (simp add: enterQualifiedName_def Let_def)

section \<open>Literal type check\<close>



text \<open>
  C2. For a literal kind without a type mapping the specification expects the check to be skipped.
  At \<open>FROM logs-* | WHERE host.name == null\<close> with \<open>host.name\<close> declared a keyword the
  pass ends with the \<open>ValueError\<close> of \<open>check_literal_type\<close>, whose actual type is \<open>None\<close>.
\<close>

theorem null_literal_raises:
  "validate [''host.name'' \<mapsto> ''keyword'']
     (where_query ''logs-*''
        (comparison (field_operand [''host'', ''.'', ''name'']) ''==''
           (literal_operand (Rule NullLiteral [Terminal ''null'']))))
     = (Some (ValueError
          (mismatch_message ''host.name'' (Some ''Comparison'') ''keyword'' None)),
        \<lparr>field_list = [''host.name''], indices = [''logs-*''], get_event_datasets = []\<rparr>)"
  by (simp add: validate_def init_def tree_defs accessor_defs check_literal_type_def
      get_literal_type_def enterQualifiedName_def enterSourceIdentifier_def literal_kinds_def
      Let_def)

text \<open>
  C7. When the ancestor search yields no field, or a field that is not a schema key, the
  check returns without raising.
\<close>

theorem check_literal_type_unchecked:
  "find_associated_field_and_context ctx = Inr (field, context_type) \<Longrightarrow>
   field = None \<or> (\<exists>f. field = Some f \<and> f \<notin> dom sch) \<Longrightarrow>
     check_literal_type sch ctx = None"
  by (auto simp: check_literal_type_def dom_def split: option.splits)

text \<open>
  The theorem at \<open>missing_field == 1\<close> with the empty schema, and at a literal with no
  ancestor at all.
\<close>

theorem check_literal_type_unchecked_witness:
  "find_associated_field_and_context
      (right_literal_ctx (field_operand [''missing_field'']) ''=='' (Rule IntegerLiteral [Terminal ''1'']))
     = Inr (Some ''missing_field'', Some ''Comparison'')
   \<and> ''missing_field'' \<notin> dom (Map.empty :: schema)
   \<and> check_literal_type Map.empty
        (right_literal_ctx (field_operand [''missing_field'']) ''=='' (Rule IntegerLiteral [Terminal ''1'']))
       = None
   \<and> find_associated_field_and_context (Rule IntegerLiteral [Terminal ''1''], [])
       = Inr (None, None)
   \<and> check_literal_type [''count'' \<mapsto> ''keyword''] (Rule IntegerLiteral [Terminal ''1''], [])
       = None"
proof -
  let ?cx = "right_literal_ctx (field_operand [''missing_field'']) ''==''
               (Rule IntegerLiteral [Terminal ''1''])"
  let ?root = "(Rule IntegerLiteral [Terminal ''1''], [])"
  have f: "find_associated_field_and_context ?cx
             = Inr (Some ''missing_field'', Some ''Comparison'')"
    by (simp add: tree_defs accessor_defs)
  have d: "Some ''missing_field'' = None
           \<or> (\<exists>f. Some ''missing_field'' = Some f \<and> f \<notin> dom (Map.empty :: schema))"
    by simp
  have f': "find_associated_field_and_context ?root = Inr (None, None)"
    by (simp add: accessor_defs)
  have d': "(None :: string option) = None
           \<or> (\<exists>f. None = Some f \<and> f \<notin> dom [''count'' \<mapsto> ''keyword''])"
    by simp
  show ?thesis
    using f f' check_literal_type_unchecked [OF f d] check_literal_type_unchecked [OF f' d']
    by simp
qed

section \<open>Ancestor search\<close>

text \<open>
  C6, as amended. The search looks at the ancestors only, nearest first. With no
  comparison and no in-list among them it returns \<open>(None, None)\<close>. Otherwise it stops at
  the nearest one: the result is the result for that ancestor alone, whatever lies above
  it. When that construct has a first operand with a first child, the result is the whole
  text of that child with the context kind.
\<close>

theorem find_nearest_context:
  assumes "\<forall>a \<in> set pre. \<not> isinstance a Comparison \<and> \<not> isinstance a LogicalIn"
  shows "find_associated_field_and_context (n, pre) = Inr (None, None)
       \<and> (isinstance a Comparison \<or> isinstance a LogicalIn
            \<longrightarrow> find_associated_field_and_context (n, pre @ a # rest)
                  = find_associated_field_and_context (n, [a]))
       \<and> (isinstance a Comparison \<and> operatorExpression a 0 = Some oe \<and> getChild oe 0 = Some c
            \<longrightarrow> find_associated_field_and_context (n, pre @ a # rest)
                  = Inr (Some (getText c), Some ''Comparison''))
       \<and> (isinstance a LogicalIn \<and> valueExpression a 0 = Some ve \<and> getChild ve 0 = Some c
            \<longrightarrow> find_associated_field_and_context (n, pre @ a # rest)
                  = Inr (Some (getText c), Some ''LogicalIn''))"
proof -
  have "find_loop (pre @ []) = find_loop []"
    using assms by (rule find_loop_skip)
  moreover have "find_loop (pre @ a # rest) = find_loop (a # rest)"
    using assms by (rule find_loop_skip)
  moreover have "\<not> (isinstance a Comparison \<and> isinstance a LogicalIn)"
    using isinstance_unique [of a Comparison LogicalIn] by auto
  ultimately show ?thesis
    by (auto simp: find_associated_field_and_context_def)
qed

text \<open>
  The theorem at the integer of \<open>count == 1\<close>, where that comparison is itself the left
  side of an outer comparison on \<open>outer\<close>: the inner field is returned, as without the
  outer comparison. And at the integer of \<open>count IN (1)\<close>.
\<close>

theorem find_nearest_context_witness:
  "\<not> isinstance (Rule OtherRule [Rule IntegerLiteral [Terminal ''1'']]) Comparison
   \<and> \<not> isinstance (Rule OtherRule [Rule IntegerLiteral [Terminal ''1'']]) LogicalIn
   \<and> \<not> isinstance (literal_operand (Rule IntegerLiteral [Terminal ''1''])) Comparison
   \<and> \<not> isinstance (literal_operand (Rule IntegerLiteral [Terminal ''1''])) LogicalIn
   \<and> find_associated_field_and_context
        (Rule IntegerLiteral [Terminal ''1''],
         [Rule OtherRule [Rule IntegerLiteral [Terminal ''1'']],
          literal_operand (Rule IntegerLiteral [Terminal ''1''])])
       = Inr (None, None)
   \<and> isinstance (comparison (field_operand [''count'']) ''==''
                   (literal_operand (Rule IntegerLiteral [Terminal ''1'']))) Comparison
   \<and> operatorExpression (comparison (field_operand [''count'']) ''==''
                   (literal_operand (Rule IntegerLiteral [Terminal ''1'']))) 0
       = Some (field_operand [''count''])
   \<and> getChild (field_operand [''count'']) 0 = Some (Rule OtherRule [qualified_name [''count'']])
   \<and> find_associated_field_and_context
        (Rule IntegerLiteral [Terminal ''1''],
         [Rule OtherRule [Rule IntegerLiteral [Terminal ''1'']],
          literal_operand (Rule IntegerLiteral [Terminal ''1''])]
         @ comparison (field_operand [''count'']) ''==''
             (literal_operand (Rule IntegerLiteral [Terminal ''1'']))
         # [comparison (field_operand [''outer'']) ''==''
              (literal_operand (Rule BooleanLiteral [Terminal ''true'']))])
       = find_associated_field_and_context
           (Rule IntegerLiteral [Terminal ''1''],
            [comparison (field_operand [''count'']) ''==''
               (literal_operand (Rule IntegerLiteral [Terminal ''1'']))])
   \<and> find_associated_field_and_context
        (Rule IntegerLiteral [Terminal ''1''],
         [Rule OtherRule [Rule IntegerLiteral [Terminal ''1'']],
          literal_operand (Rule IntegerLiteral [Terminal ''1''])]
         @ comparison (field_operand [''count'']) ''==''
             (literal_operand (Rule IntegerLiteral [Terminal ''1'']))
         # [comparison (field_operand [''outer'']) ''==''
              (literal_operand (Rule BooleanLiteral [Terminal ''true'']))])
       = Inr (Some ''count'', Some ''Comparison'')
   \<and> isinstance (in_list (field_operand [''count''])
                   [literal_operand (Rule IntegerLiteral [Terminal ''1''])]) LogicalIn
   \<and> valueExpression (in_list (field_operand [''count''])
                   [literal_operand (Rule IntegerLiteral [Terminal ''1''])]) 0
       = Some (Rule ValueExpression [field_operand [''count'']])
   \<and> getChild (Rule ValueExpression [field_operand [''count'']]) 0
       = Some (field_operand [''count''])
   \<and> find_associated_field_and_context
        (Rule IntegerLiteral [Terminal ''1''],
         [Rule OtherRule [Rule IntegerLiteral [Terminal ''1'']],
          literal_operand (Rule IntegerLiteral [Terminal ''1''])]
         @ in_list (field_operand [''count''])
             [literal_operand (Rule IntegerLiteral [Terminal ''1''])]
         # [])
       = Inr (Some ''count'', Some ''LogicalIn'')"
proof -
  let ?lit = "Rule IntegerLiteral [Terminal ''1'']"
  let ?pre = "[Rule OtherRule [?lit], literal_operand ?lit]"
  let ?cmp = "comparison (field_operand [''count'']) ''=='' (literal_operand ?lit)"
  let ?rest = "[comparison (field_operand [''outer'']) ''==''
                  (literal_operand (Rule BooleanLiteral [Terminal ''true'']))]"
  let ?inl = "in_list (field_operand [''count'']) [literal_operand ?lit]"
  have p: "\<forall>a \<in> set ?pre. \<not> isinstance a Comparison \<and> \<not> isinstance a LogicalIn"
    by (simp add: tree_defs)
  have i: "isinstance ?cmp Comparison"
    by (simp add: tree_defs)
  have o: "operatorExpression ?cmp 0 = Some (field_operand [''count''])"
    by (simp add: tree_defs accessor_defs)
  have g: "getChild (field_operand [''count'']) 0 = Some (Rule OtherRule [qualified_name [''count'']])"
    by (simp add: tree_defs accessor_defs)
  have t: "getText (Rule OtherRule [qualified_name [''count'']]) = ''count''"
    by (simp add: tree_defs)
  have i': "isinstance ?inl LogicalIn"
    by (simp add: tree_defs)
  have o': "valueExpression ?inl 0 = Some (Rule ValueExpression [field_operand [''count'']])"
    by (simp add: tree_defs accessor_defs)
  have g': "getChild (Rule ValueExpression [field_operand [''count'']]) 0
              = Some (field_operand [''count''])"
    by (simp add: accessor_defs)
  have t': "getText (field_operand [''count'']) = ''count''"
    by (simp add: tree_defs)
  have n: "find_associated_field_and_context (?lit, ?pre) = Inr (None, None)"
    using find_nearest_context [OF p, of ?lit] by blast
  have u: "find_associated_field_and_context (?lit, ?pre @ ?cmp # ?rest)
          = find_associated_field_and_context (?lit, [?cmp])"
    using find_nearest_context [OF p, where n = ?lit and a = ?cmp and rest = ?rest] i
    by blast
  have c0: "find_associated_field_and_context (?lit, ?pre @ ?cmp # ?rest)
          = Inr (Some (getText (Rule OtherRule [qualified_name [''count'']])), Some ''Comparison'')"
    using find_nearest_context [OF p, where n = ?lit and a = ?cmp and rest = ?rest
        and oe = "field_operand [''count'']"
        and c = "Rule OtherRule [qualified_name [''count'']]"] i o g
    by blast
  have c: "find_associated_field_and_context (?lit, ?pre @ ?cmp # ?rest)
          = Inr (Some ''count'', Some ''Comparison'')"
    using c0 by (simp only: t)
  have l0: "find_associated_field_and_context (?lit, ?pre @ ?inl # [])
          = Inr (Some (getText (field_operand [''count''])), Some ''LogicalIn'')"
    using find_nearest_context [OF p, where n = ?lit and a = ?inl
        and ve = "Rule ValueExpression [field_operand [''count'']]"
        and c = "field_operand [''count'']" and rest = "[]"] i' o' g'
    by blast
  have l: "find_associated_field_and_context (?lit, ?pre @ ?inl # [])
          = Inr (Some ''count'', Some ''LogicalIn'')"
    using l0 by (simp only: t')
  have q: "\<not> isinstance (Rule OtherRule [?lit]) Comparison
         \<and> \<not> isinstance (Rule OtherRule [?lit]) LogicalIn
         \<and> \<not> isinstance (literal_operand ?lit) Comparison
         \<and> \<not> isinstance (literal_operand ?lit) LogicalIn"
    using p by simp
  from q n i o g u c i' o' g' l show ?thesis by blast
qed

text \<open>
  C6 as stated fails at \<open>host.name == 1\<close>: the first child of the first operand has the
  text \<open>host.name\<close>, and that is what the search returns, while the leftmost leaf of that
  operand is the token \<open>host\<close>.
\<close>

theorem find_leftmost_leaf_counterexample:
  "find_associated_field_and_context
      (right_literal_ctx (field_operand [''host'', ''.'', ''name'']) ''==''
         (Rule IntegerLiteral [Terminal ''1'']))
     = Inr (Some ''host.name'', Some ''Comparison'')
   \<and> operatorExpression
        (comparison (field_operand [''host'', ''.'', ''name'']) ''==''
           (literal_operand (Rule IntegerLiteral [Terminal ''1'']))) 0
       = Some (field_operand [''host'', ''.'', ''name''])
   \<and> spec_leftmost_leaf_text (field_operand [''host'', ''.'', ''name'']) = Some ''host''
   \<and> ''host.name'' \<noteq> ''host''"
  by (simp add: tree_defs accessor_defs)

section \<open>Field and index references\<close>

text \<open>
  C3. For a qualified name anywhere inside an eval clause the specification expects no
  append and no schema lookup. At \<open>FROM idx | EVAL b = a + 1\<close> with only \<open>a\<close> in the schema
  the eval command is the great-grandparent of \<open>b\<close>, not its parent, so the test of
  \<open>enterQualifiedName\<close> does not exempt it: the handler appends \<open>b\<close> to \<open>field_list\<close> and
  raises, and the pass ends with that error.
\<close>

theorem eval_name_checked:
  "isinstance (snd nested_eval_ctx ! 2) EvalCommand
   \<and> parent_isinstance nested_eval_ctx EvalCommand = False
   \<and> getText (fst nested_eval_ctx) = ''b''
   \<and> enterQualifiedName [''a'' \<mapsto> ''integer''] nested_eval_ctx init
       = (Some (ESQLSyntaxError ''Invalid field: b''),
          \<lparr>field_list = [''b''], indices = [], get_event_datasets = []\<rparr>)
   \<and> validate [''a'' \<mapsto> ''integer''] eval_query
       = (Some (ESQLSyntaxError ''Invalid field: b''),
          \<lparr>field_list = [''b''], indices = [''idx''], get_event_datasets = []\<rparr>)"
  by (simp add: validate_def init_def tree_defs enterQualifiedName_def
      enterSourceIdentifier_def literal_kinds_def Let_def)

text \<open>
  C4. For a source identifier whose immediate parent is a from command the handler
  appends the text to \<open>indices\<close>, changes nothing else and raises nothing, whatever the
  schema holds.
\<close>

theorem enterSourceIdentifier_from:
  "parent_isinstance ctx FromCommand \<Longrightarrow>
     enterSourceIdentifier sch ctx s
       = (None, s\<lparr>indices := indices s @ [getText (fst ctx)]\<rparr>)"
  by (simp add: enterSourceIdentifier_def)

text \<open>The theorem at \<open>FROM logs-*\<close> with the empty schema.\<close>

theorem enterSourceIdentifier_from_witness:
  "parent_isinstance
      (Rule SourceIdentifier [Terminal ''logs-*''],
       [Rule FromCommand [Terminal ''FROM'', Rule SourceIdentifier [Terminal ''logs-*'']]])
      FromCommand
   \<and> ''logs-*'' \<notin> dom (Map.empty :: schema)
   \<and> enterSourceIdentifier Map.empty
        (Rule SourceIdentifier [Terminal ''logs-*''],
         [Rule FromCommand [Terminal ''FROM'', Rule SourceIdentifier [Terminal ''logs-*'']]])
        init
       = (None, \<lparr>field_list = [], indices = [''logs-*''], get_event_datasets = []\<rparr>)"
proof -
  have p: "parent_isinstance
      (Rule SourceIdentifier [Terminal ''logs-*''],
       [Rule FromCommand [Terminal ''FROM'', Rule SourceIdentifier [Terminal ''logs-*'']]])
      FromCommand"
    by simp
  show ?thesis
    using p enterSourceIdentifier_from [OF p, of Map.empty init] by (simp add: init_def)
qed

text \<open>
  C8. For a source identifier whose immediate parent is not a from command the handler
  appends the text to \<open>field_list\<close>, raises the error for an invalid field exactly when the
  text is not a schema key, and leaves \<open>indices\<close> and \<open>get_event_datasets\<close> as they
  were, also when the text is \<open>event.dataset\<close>.
\<close>

theorem enterSourceIdentifier_not_from:
  "\<not> parent_isinstance ctx FromCommand \<Longrightarrow>
     field_list (snd (enterSourceIdentifier sch ctx s)) = field_list s @ [getText (fst ctx)]
   \<and> indices (snd (enterSourceIdentifier sch ctx s)) = indices s
   \<and> get_event_datasets (snd (enterSourceIdentifier sch ctx s)) = get_event_datasets s
   \<and> (fst (enterSourceIdentifier sch ctx s)
          = Some (ValueError (''Invalid field: '' @ getText (fst ctx)))
        \<longleftrightarrow> getText (fst ctx) \<notin> dom sch)
   \<and> (fst (enterSourceIdentifier sch ctx s) = None \<longleftrightarrow> getText (fst ctx) \<in> dom sch)"
  by (auto simp: enterSourceIdentifier_def Let_def)

text \<open>
  The theorem at a source identifier \<open>event.dataset\<close> under a where command, with
  \<open>event.dataset\<close> in the schema.
\<close>

theorem enterSourceIdentifier_not_from_witness:
  "\<not> parent_isinstance
        (Rule SourceIdentifier [Terminal ''event.dataset''],
         [Rule WhereCommand [Terminal ''WHERE'', Rule SourceIdentifier [Terminal ''event.dataset'']]])
        FromCommand
   \<and> enterSourceIdentifier [''event.dataset'' \<mapsto> ''keyword'']
        (Rule SourceIdentifier [Terminal ''event.dataset''],
         [Rule WhereCommand [Terminal ''WHERE'', Rule SourceIdentifier [Terminal ''event.dataset'']]])
        init
       = (None, \<lparr>field_list = [''event.dataset''], indices = [], get_event_datasets = []\<rparr>)"
proof -
  let ?cx = "(Rule SourceIdentifier [Terminal ''event.dataset''],
         [Rule WhereCommand [Terminal ''WHERE'', Rule SourceIdentifier [Terminal ''event.dataset'']]])"
  let ?r = "enterSourceIdentifier [''event.dataset'' \<mapsto> ''keyword''] ?cx init"
  have p: "\<not> parent_isinstance ?cx FromCommand"
    by simp
  have "field_list (snd ?r) = [''event.dataset''] \<and> indices (snd ?r) = []
        \<and> get_event_datasets (snd ?r) = [] \<and> fst ?r = None"
    using enterSourceIdentifier_not_from [OF p, of "[''event.dataset'' \<mapsto> ''keyword'']" init]
    by (simp add: init_def)
  then have "?r = (None, \<lparr>field_list = [''event.dataset''], indices = [], get_event_datasets = []\<rparr>)"
    by (cases ?r) auto
  with p show ?thesis by blast
qed

text \<open>
  C10. For a qualified name whose immediate parent is not an eval command and whose text
  is not a schema key, the handler raises the error for an invalid field with the text
  already appended to \<open>field_list\<close>.
\<close>

theorem enterQualifiedName_unknown_field:
  "\<not> parent_isinstance ctx EvalCommand \<Longrightarrow> getText (fst ctx) \<notin> dom sch \<Longrightarrow>
     enterQualifiedName sch ctx s
       = (Some (ESQLSyntaxError (''Invalid field: '' @ getText (fst ctx))),
          s\<lparr>field_list := field_list s @ [getText (fst ctx)]\<rparr>)"
  by (auto simp: enterQualifiedName_def Let_def)

text \<open>The theorem at the name \<open>missing_field\<close> under a where command, with the empty schema.\<close>

theorem enterQualifiedName_unknown_field_witness:
  "\<not> parent_isinstance
        (qualified_name [''missing_field''], [Rule WhereCommand [qualified_name [''missing_field'']]])
        EvalCommand
   \<and> getText (qualified_name [''missing_field'']) \<notin> dom (Map.empty :: schema)
   \<and> enterQualifiedName Map.empty
        (qualified_name [''missing_field''], [Rule WhereCommand [qualified_name [''missing_field'']]])
        init
       = (Some (ESQLSyntaxError ''Invalid field: missing_field''),
          \<lparr>field_list = [''missing_field''], indices = [], get_event_datasets = []\<rparr>)"
proof -
  let ?cx = "(qualified_name [''missing_field''],
              [Rule WhereCommand [qualified_name [''missing_field'']]])"
  have p: "\<not> parent_isinstance ?cx EvalCommand"
    by simp
  have d: "getText (fst ?cx) \<notin> dom (Map.empty :: schema)"
    by simp
  show ?thesis
    using p enterQualifiedName_unknown_field [OF p d, of init]
    by (simp add: init_def qualified_name_def)
qed

text \<open>
  C5. For a comparison on \<open>event.dataset\<close> the specification expects the text of the comparison in
  \<open>get_event_datasets\<close>. At \<open>FROM logs-* | WHERE event.dataset == "nginx"\<close> with
  \<open>event.dataset\<close> declared a keyword the pass succeeds and the entry is the text of the
  name's parent, \<open>event.dataset\<close>, not the text of the comparison.
\<close>

theorem event_dataset_parent_text:
  "validate [''event.dataset'' \<mapsto> ''keyword'']
     (where_query ''logs-*''
        (comparison (field_operand [''event'', ''.'', ''dataset'']) ''==''
           (literal_operand (Rule StringLiteral [string_token ''nginx'']))))
     = (None, \<lparr>field_list = [''event.dataset''], indices = [''logs-*''],
               get_event_datasets = [''event.dataset'']\<rparr>)
   \<and> getText (comparison (field_operand [''event'', ''.'', ''dataset'']) ''==''
                (literal_operand (Rule StringLiteral [string_token ''nginx''])))
       = ''event.dataset=='' @ [CHR 0x22] @ ''nginx'' @ [CHR 0x22]"
  by (simp add: validate_def init_def tree_defs accessor_defs check_literal_type_def
      get_literal_type_def enterQualifiedName_def enterSourceIdentifier_def literal_kinds_def
      Let_def)

section \<open>Append-only collections\<close>

text \<open>
  C9. Every enter-handler, and so the whole pass over any tree from any attributes, only
  appends to \<open>field_list\<close>, \<open>indices\<close> and \<open>get_event_datasets\<close>: the lists before are
  prefixes of the lists after, whether or not an error is raised.
\<close>

theorem collections_append_only:
  "extends s (snd (enterQualifiedName sch ctx s))
   \<and> extends s (snd (enterSourceIdentifier sch ctx s))
   \<and> extends s (snd (enterRule sch ctx s))
   \<and> extends s (snd (walk sch anc t s))"
  by (simp add: enterQualifiedName_extends enterSourceIdentifier_extends enterRule_extends
      walk_extends)

end
